theory Spec2Isabelle
  imports
    Main
    "HOL-Library.Char_ord"
    "HOL-Library.List_Lexorder"
    "HOL-Library.Option_ord"
    "HOL-Library.Multiset"
begin

section \<open>The version comparator\<close>

text \<open>
  Modelled from the spec: \<open>labelCompare\<close> is imported from the \<open>rpm\<close> library and has no
  source in the repository. The definitions of this section follow section 4.1 of the
  specification: a string is split into maximal runs of letters and of digits, every other
  character separates segments, and \<open>~\<close> is a segment of its own that sorts below
  everything, the end of the string included.
\<close>

datatype segment = Tilde | Alpha string | Numeric nat

definition is_digit :: "char \<Rightarrow> bool" where
  "is_digit c = (CHR ''0'' \<le> c \<and> c \<le> CHR ''9'')"

definition is_alpha :: "char \<Rightarrow> bool" where
  "is_alpha c = ((CHR ''a'' \<le> c \<and> c \<le> CHR ''z'') \<or> (CHR ''A'' \<le> c \<and> c \<le> CHR ''Z''))"

definition digits_value :: "string \<Rightarrow> nat" where
  \<comment> \<open>Modelled from the spec: numeric segments compare as integers, leading zeros stripped.\<close>
  "digits_value ds = foldl (\<lambda>n c. 10 * n + (of_char c - 48)) 0 ds"

function segments :: "string \<Rightarrow> segment list" where
  "segments [] = []"
| "segments (c # cs) =
     (if c = CHR ''~'' then Tilde # segments cs
      else if is_digit c then
        Numeric (digits_value (c # takeWhile is_digit cs)) # segments (dropWhile is_digit cs)
      else if is_alpha c then
        Alpha (c # takeWhile is_alpha cs) # segments (dropWhile is_alpha cs)
      else segments cs)"
  by pat_completeness auto
termination
  by (relation "measure length") (auto simp: less_Suc_eq_le length_dropWhile_le)

fun segments_cmp :: "segment list \<Rightarrow> segment list \<Rightarrow> int" where
  \<comment> \<open>Modelled from the spec: \<open>~\<close> below the end of the string, the end below a letter run,
      a letter run below a digit run; letter runs by byte value, digit runs by value.\<close>
  "segments_cmp [] [] = 0"
| "segments_cmp (Tilde # xs) (Tilde # ys) = segments_cmp xs ys"
| "segments_cmp (Tilde # xs) ys = -1"
| "segments_cmp xs (Tilde # ys) = 1"
| "segments_cmp [] (y # ys) = -1"
| "segments_cmp (x # xs) [] = 1"
| "segments_cmp (Numeric a # xs) (Numeric b # ys) =
     (if a < b then -1 else if b < a then 1 else segments_cmp xs ys)"
| "segments_cmp (Numeric a # xs) (Alpha b # ys) = 1"
| "segments_cmp (Alpha a # xs) (Numeric b # ys) = -1"
| "segments_cmp (Alpha a # xs) (Alpha b # ys) =
     (if a < b then -1 else if b < a then 1 else segments_cmp xs ys)"

definition vercmp :: "string \<Rightarrow> string \<Rightarrow> int" where
  "vercmp a b = segments_cmp (segments a) (segments b)"

type_synonym evr = "nat option \<times> string \<times> string"

definition epoch_value :: "nat option \<Rightarrow> nat" where
  \<comment> \<open>Modelled from the spec: an absent epoch is treated as 0.\<close>
  "epoch_value e = (case e of None \<Rightarrow> 0 | Some n \<Rightarrow> n)"

fun labelCompare :: "evr \<Rightarrow> evr \<Rightarrow> int" where
  \<comment> \<open>Modelled from the spec: epochs first, as integers; then version; then release.\<close>
  "labelCompare (e1, v1, r1) (e2, v2, r2) =
     (if epoch_value e1 < epoch_value e2 then -1
      else if epoch_value e2 < epoch_value e1 then 1
      else if vercmp v1 v2 \<noteq> 0 then vercmp v1 v2
      else vercmp r1 r2)"


section \<open>Data model\<close>

datatype channel = STABLE | BETA

datatype removal_reason = EXPIRED_BY_STABLE | OUTDATED

text \<open>The exceptions the modelled functions can raise.\<close>

datatype error =
    KeyError nat
  | IndexError
  | CreaterepoError string string int

text \<open>
  A repository is the dictionary built by \<open>__index_repo\<close> (and the row of the
  \<open>repositories\<close> table); a package is a row of the \<open>packages\<close> table. The column
  \<open>sourcerpm\<close> may be NULL. The field \<open>epoch\<close> holds \<open>int(package.epoch)\<close>.
\<close>

record repository =
  repo_id :: nat
  repo_name :: string
  repo_arch :: string
  path :: string
  channel :: channel
  readonly :: bool

record package =
  package_id :: nat
  pkg_name :: string
  epoch :: nat
  version :: string
  rel :: string
  pkg_arch :: string
  sourcerpm :: "string option"
  location :: string
  pkg_repo_id :: nat

text \<open>The package object that \<open>createrepo_c.xml_parse_primary\<close> hands to the callback.\<close>

record cr_package =
  cr_name :: string
  cr_epoch :: nat
  cr_version :: string
  cr_release :: string
  cr_arch :: string
  rpm_sourcerpm :: "string option"
  location_href :: string

text \<open>
  One call of \<open>shutil.move\<close> in \<open>__cleanup_version\<close>, with the line printed beside it:
  the package row, the reason, the key of \<open>__stats\<close> that is incremented, the path that is
  moved and the directory it is moved into.
\<close>

record removal =
  rm_package :: package
  rm_reason :: removal_reason
  rm_repo_id :: nat
  rm_source :: string
  rm_backup_dir :: string

type_synonym version_key = "string \<times> string"

type_synonym versions = "(version_key \<times> package list) list"

text \<open>
  The object \<open>self\<close> of \<open>DistroCleaner\<close>. Dictionaries are association lists in
  insertion order. Two logs record what the program does to the outside world: \<open>removed\<close>,
  the files moved to the backup directory, and \<open>createrepo_calls\<close>, the command lines of
  the \<open>createrepo_c\<close> processes started.
\<close>

record cleaner =
  config_name :: string
  config_version :: string
  backup_dir :: string
  keep_beta :: int
  keep_stable :: int
  exclude_re :: "(string \<Rightarrow> bool) option"
  db_packages :: "package list"
  repos :: "nat \<rightharpoonup> repository"
  stats :: "(nat \<times> nat) list"
  removed :: "removal list"
  createrepo_calls :: "string list list"

text \<open>
  What the program takes from libraries and from the Python 2 runtime, and what has no
  source in the repository:
  \<^item> \<open>splitFilename\<close> of \<open>rpmUtils.miscutils\<close>, \<open>None\<close> when it raises;
  \<^item> the order in which \<open>itervalues\<close> visits the \<open>versions\<close> dictionary and the order in
    which the keys of \<open>__stats\<close> are visited: both depend on the hashes of the keys;
  \<^item> the records (type, location) of a repository's \<open>repomd.xml\<close>;
  \<^item> the return code and the output of a \<open>createrepo_c\<close> process, by command line.
\<close>

record externals =
  splitFilename :: "string option \<Rightarrow> (string \<times> string \<times> string \<times> string \<times> string) option"
  itervalues :: "versions \<Rightarrow> package list list"
  iterkeys :: "(nat \<times> nat) list \<Rightarrow> nat list"
  repomd_records :: "string \<Rightarrow> (string \<times> string) list"
  run_process :: "string list \<Rightarrow> int \<times> string"

text \<open>
  The result of a method that may raise: \<open>Inl (e, s)\<close> is the exception \<open>e\<close> raised in
  state \<open>s\<close> (what was moved before the exception stays moved), \<open>Inr s\<close> a normal return.
\<close>

type_synonym 'a raising = "(error \<times> cleaner) + 'a"

type_synonym result = "cleaner raising"

definition and_then :: "'a raising \<Rightarrow> ('a \<Rightarrow> 'b raising) \<Rightarrow> 'b raising" where
  "and_then r f = (case r of Inl e \<Rightarrow> Inl e | Inr s \<Rightarrow> f s)"

definition final_state :: "result \<Rightarrow> cleaner" where
  "final_state r = (case r of Inl (e, s) \<Rightarrow> s | Inr s \<Rightarrow> s)"

definition decisions :: "cleaner \<Rightarrow> result \<Rightarrow> removal list" where
  \<comment> \<open>what a call that starts in state \<open>self\<close> and ends with \<open>r\<close> adds to the log of removals\<close>
  "decisions self r = drop (length (removed self)) (removed (final_state r))"


section \<open>Python library functions\<close>

definition path_join :: "string \<Rightarrow> string \<Rightarrow> string" where
  \<comment> \<open>\<open>os.path.join\<close> of two components on POSIX\<close>
  "path_join a b =
     (if b \<noteq> [] \<and> hd b = CHR ''/'' then b
      else if a = [] \<or> last a = CHR ''/'' then a @ b
      else a @ ''/'' @ b)"

text \<open>
  \<open>list.sort(cmp, reverse)\<close>: a stable sort that asks the comparison only whether
  \<open>cmp x y < 0\<close>; with \<open>reverse\<close> the list is reversed, sorted and reversed again.
\<close>

fun py_insort :: "('a \<Rightarrow> 'a \<Rightarrow> int) \<Rightarrow> 'a \<Rightarrow> 'a list \<Rightarrow> 'a list" where
  "py_insort cmp x [] = [x]"
| "py_insort cmp x (y # ys) = (if cmp x y < 0 then x # y # ys else y # py_insort cmp x ys)"

definition py_sort :: "('a \<Rightarrow> 'a \<Rightarrow> int) \<Rightarrow> bool \<Rightarrow> 'a list \<Rightarrow> 'a list" where
  "py_sort cmp reverse xs =
     (if reverse then rev (foldl (\<lambda>acc x. py_insort cmp x acc) [] (rev xs))
      else foldl (\<lambda>acc x. py_insort cmp x acc) [] xs)"

definition slice_from :: "int \<Rightarrow> 'a list \<Rightarrow> 'a list" where
  \<comment> \<open>\<open>xs[k:]\<close>; a negative \<open>k\<close> counts from the end\<close>
  "slice_from k xs = (if 0 \<le> k then drop (nat k) xs else drop (length xs - nat (- k)) xs)"


section \<open>The package index\<close>

definition is_srpm_excluded :: "cleaner \<Rightarrow> string \<Rightarrow> bool" where
  "is_srpm_excluded self srpm_name =
     (case exclude_re self of None \<Rightarrow> False | Some re \<Rightarrow> re srpm_name)"

definition next_package_id :: "package list \<Rightarrow> nat" where
  \<comment> \<open>\<open>INTEGER PRIMARY KEY AUTOINCREMENT\<close>: one more than the largest id in the table\<close>
  "next_package_id db = Suc (foldr max (map package_id db) 0)"

definition save_repo_package :: "cleaner \<Rightarrow> nat \<Rightarrow> cr_package \<Rightarrow> cleaner" where
  "save_repo_package self rid package =
     (if (case rpm_sourcerpm package of None \<Rightarrow> False
          | Some s \<Rightarrow> s \<noteq> [] \<and> is_srpm_excluded self s)
      then self
      else self\<lparr>db_packages := db_packages self @
        [\<lparr>package_id = next_package_id (db_packages self),
          pkg_name = cr_name package,
          epoch = cr_epoch package,
          version = cr_version package,
          rel = cr_release package,
          pkg_arch = cr_arch package,
          sourcerpm = rpm_sourcerpm package,
          location = location_href package,
          pkg_repo_id = rid\<rparr>]\<rparr>)"

definition select_packages :: "package list \<Rightarrow> nat list \<Rightarrow> package list" where
  \<comment> \<open>\<open>SELECT * FROM packages WHERE repo_id IN (...) ORDER BY sourcerpm\<close>: NULL first, text
      by bytes; rows with equal keys in table order\<close>
  "select_packages db ids = sort_key sourcerpm (filter (\<lambda>p. pkg_repo_id p \<in> set ids) db)"


section \<open>The retention engine\<close>

text \<open>
  The methods \<open>__cleanup_version\<close>, \<open>__cleanup_previous_versions\<close> and \<open>__cleanup_arch\<close>.
  Of their effects the model keeps the files moved and the counters of \<open>__stats\<close>; the
  lines printed and the creation of the backup directory are left out. A version group
  with no package (\<open>packages[0]\<close> on an empty list) and a repository id missing from
  \<open>__repos\<close> raise, as in the source.
\<close>

definition sort_by_rpm_name :: "string \<Rightarrow> package \<Rightarrow> package \<Rightarrow> int" where
  "sort_by_rpm_name srpm_name a b =
     (if pkg_name a = srpm_name then 1
      else if pkg_name b = srpm_name then -1 else 0)"

definition evr_of :: "package \<Rightarrow> evr" where
  \<comment> \<open>\<open>(str(p['epoch']), p['version'], p['rel'])\<close>\<close>
  "evr_of p = (Some (epoch p), version p, rel p)"

definition count_removal :: "nat \<Rightarrow> (nat \<times> nat) list \<Rightarrow> (nat \<times> nat) list" where
  \<comment> \<open>\<open>self.__stats[repo_id] += 1\<close>\<close>
  "count_removal rid st = map (\<lambda>(k, c). if k = rid then (k, Suc c) else (k, c)) st"

definition move_package ::
  "repository \<Rightarrow> string \<Rightarrow> removal_reason \<Rightarrow> nat \<Rightarrow> cleaner \<Rightarrow> package \<Rightarrow> cleaner" where
  \<comment> \<open>the body of the loop of \<open>__cleanup_version\<close>: \<open>shutil.move(package_path, backup_dir)\<close>
      and \<open>self.__stats[repo_id] += 1\<close>\<close>
  "move_package repo backup reason rid self package =
     self\<lparr>removed := removed self @
            [\<lparr>rm_package = package, rm_reason = reason, rm_repo_id = rid,
              rm_source = path_join (path repo) (location package),
              rm_backup_dir = backup\<rparr>],
          stats := count_removal rid (stats self)\<rparr>"

definition cleanup_version :: "cleaner \<Rightarrow> package list \<Rightarrow> removal_reason \<Rightarrow> result" where
  "cleanup_version self packages reason =
     (case packages of
        [] \<Rightarrow> Inl (IndexError, self)
      | main_package # _ \<Rightarrow>
         (let rid = pkg_repo_id main_package in
          case repos self rid of
            None \<Rightarrow> Inl (KeyError rid, self)
          | Some repo \<Rightarrow>
             if readonly repo then Inr self
             else
               let backup = path_join (path_join (backup_dir self) (repo_name repo))
                                      (repo_arch repo);
                   self1 = (if rid \<in> fst ` set (stats self) then self
                            else self\<lparr>stats := stats self @ [(rid, 0)]\<rparr>)
               in Inr (foldl (move_package repo backup reason rid) self1 packages)))"

fun cleanup_versions :: "cleaner \<Rightarrow> package list list \<Rightarrow> removal_reason \<Rightarrow> result" where
  \<comment> \<open>\<open>for packages in ...: self.__cleanup_version(packages, reason)\<close>\<close>
  "cleanup_versions self [] reason = Inr self"
| "cleanup_versions self (packages # rest) reason =
     and_then (cleanup_version self packages reason) (\<lambda>s. cleanup_versions s rest reason)"

fun latest_stable_loop :: "nat list \<Rightarrow> evr option \<Rightarrow> package list list \<Rightarrow> evr option" where
  \<comment> \<open>the first loop of \<open>__cleanup_previous_versions\<close>, over the groups already sorted\<close>
  "latest_stable_loop stable_repo_ids latest_stable_evr [] = latest_stable_evr"
| "latest_stable_loop stable_repo_ids latest_stable_evr (ver_packages # rest) =
     (let main_package = hd ver_packages;
          main_package_evr = evr_of main_package;
          latest = (case latest_stable_evr of
                      None \<Rightarrow> False
                    | Some l \<Rightarrow> pkg_repo_id main_package \<in> set stable_repo_ids \<and>
                                labelCompare l main_package_evr < 0)
      in latest_stable_loop stable_repo_ids
           (if latest_stable_evr = None \<or> latest then Some main_package_evr
            else latest_stable_evr) rest)"

definition cmp_versions :: "package list \<Rightarrow> package list \<Rightarrow> int" where
  "cmp_versions a b = labelCompare (evr_of (hd a)) (evr_of (hd b))"

definition cleanup_previous_versions ::
  "externals \<Rightarrow> cleaner \<Rightarrow> string \<Rightarrow> versions \<Rightarrow> repository list \<Rightarrow> result" where
  "cleanup_previous_versions ext self srpm_name vers repos_arch =
     (let stable_repo_ids = map repo_id (filter (\<lambda>r. channel r = STABLE) repos_arch);
          visited = map (py_sort (sort_by_rpm_name srpm_name) True) (itervalues ext vers)
      in if [] \<in> set visited then Inl (IndexError, self)
         else case latest_stable_loop stable_repo_ids None visited of
           None \<Rightarrow> Inr self
         | Some latest_stable_evr \<Rightarrow>
            (let ord_versions = py_sort cmp_versions True visited;
                 expired_beta = filter (\<lambda>v. pkg_repo_id (hd v) \<notin> set stable_repo_ids \<and>
                                   labelCompare latest_stable_evr (evr_of (hd v)) > 0)
                                 ord_versions;
                 remaining = foldl (\<lambda>vs packages. remove1 packages vs) ord_versions expired_beta;
                 stable_versions = filter (\<lambda>v. pkg_repo_id (hd v) \<in> set stable_repo_ids) remaining;
                 beta_versions = filter (\<lambda>v. pkg_repo_id (hd v) \<notin> set stable_repo_ids) remaining
             in and_then (cleanup_versions self expired_beta EXPIRED_BY_STABLE) (\<lambda>s1.
                and_then (cleanup_versions s1 (slice_from (keep_beta self) beta_versions) OUTDATED)
                  (\<lambda>s2.
                cleanup_versions s2 (slice_from (keep_stable self) stable_versions) OUTDATED))))"

definition add_version :: "version_key \<Rightarrow> package \<Rightarrow> versions \<Rightarrow> versions" where
  \<comment> \<open>\<open>versions[version_key] = [pkg]\<close> for a new key, \<open>versions[version_key].append(pkg)\<close>
      otherwise\<close>
  "add_version version_key pkg vers =
     (if version_key \<notin> fst ` set vers then vers @ [(version_key, [pkg])]
      else map (\<lambda>(k, pkgs). if k = version_key then (k, pkgs @ [pkg]) else (k, pkgs)) vers)"

text \<open>
  The loop of \<open>__cleanup_arch\<close> over the rows of the query. Its state is the locals
  \<open>last_srpm_name\<close> and \<open>versions\<close> and the object \<open>self\<close>; the method returns when the
  rows are exhausted, and the locals are dropped.
\<close>

fun cleanup_arch_loop ::
  "externals \<Rightarrow> repository list \<Rightarrow> string option \<Rightarrow> versions \<Rightarrow> cleaner \<Rightarrow> package list \<Rightarrow>
   (string option \<times> versions \<times> cleaner) raising"
  where
  "cleanup_arch_loop ext repos_arch last_srpm_name vers self [] =
     Inr (last_srpm_name, vers, self)"
| "cleanup_arch_loop ext repos_arch last_srpm_name vers self (pkg_row # rows) =
     (case splitFilename ext (sourcerpm pkg_row) of
        None \<Rightarrow> cleanup_arch_loop ext repos_arch last_srpm_name vers self rows
      | Some (srpm_name, srpm_version, srpm_release, _, _) \<Rightarrow>
         if last_srpm_name \<noteq> Some srpm_name then
           and_then
             (case last_srpm_name of
                Some last_name \<Rightarrow>
                  if length vers > 1
                  then cleanup_previous_versions ext self last_name vers repos_arch
                  else Inr self
              | None \<Rightarrow> Inr self)
             (\<lambda>s. cleanup_arch_loop ext repos_arch (Some srpm_name)
                    (add_version (srpm_version, srpm_release) pkg_row []) s rows)
         else cleanup_arch_loop ext repos_arch last_srpm_name
                (add_version (srpm_version, srpm_release) pkg_row vers) self rows)"

definition cleanup_arch :: "externals \<Rightarrow> cleaner \<Rightarrow> repository list \<Rightarrow> result" where
  "cleanup_arch ext self repos_arch =
     and_then
       (cleanup_arch_loop ext repos_arch None [] self
          (select_packages (db_packages self) (map repo_id repos_arch)))
       (\<lambda>(last_srpm_name, vers, s). Inr s)"

text \<open>The source name and the version key that the loop reads off a row.\<close>

definition srpm_name_of :: "externals \<Rightarrow> package \<Rightarrow> string option" where
  "srpm_name_of ext pkg_row =
     (case splitFilename ext (sourcerpm pkg_row) of
        None \<Rightarrow> None
      | Some (srpm_name, srpm_version, srpm_release, _, _) \<Rightarrow> Some srpm_name)"

definition version_key_of :: "externals \<Rightarrow> package \<Rightarrow> version_key option" where
  "version_key_of ext pkg_row =
     (case splitFilename ext (sourcerpm pkg_row) of
        None \<Rightarrow> None
      | Some (srpm_name, srpm_version, srpm_release, _, _) \<Rightarrow>
          Some (srpm_version, srpm_release))"


section \<open>Metadata regeneration\<close>

definition get_repomd_record_xml_path :: "externals \<Rightarrow> string \<Rightarrow> string \<Rightarrow> string option" where
  "get_repomd_record_xml_path ext repo_path record_type =
     (case find (\<lambda>(t, href). t = record_type) (repomd_records ext repo_path) of
        None \<Rightarrow> None
      | Some (t, href) \<Rightarrow> Some (path_join repo_path href))"

definition create_repo_cmd :: "string \<Rightarrow> string option \<Rightarrow> string list" where
  \<comment> \<open>the command line that \<open>create_repo\<close> builds\<close>
  "create_repo_cmd repo_path group_file =
     [''createrepo_c'', ''--keep-all-metadata'', ''--compatibility'', ''--simple-md-filenames'']
     @ (case group_file of
          None \<Rightarrow> []
        | Some g \<Rightarrow> if g = [] then [] else [''--groupfile'', g])
     @ [repo_path]"

definition create_repo :: "externals \<Rightarrow> cleaner \<Rightarrow> string \<Rightarrow> string option \<Rightarrow> result" where
  "create_repo ext self repo_path group_file =
     (let cmd = create_repo_cmd repo_path group_file;
          self1 = self\<lparr>createrepo_calls := createrepo_calls self @ [cmd]\<rparr>
      in case run_process ext cmd of
           (returncode, out) \<Rightarrow>
             if returncode \<noteq> 0 then Inl (CreaterepoError repo_path out returncode, self1)
             else Inr self1)"

definition repodata_cmd :: "externals \<Rightarrow> repository \<Rightarrow> string list" where
  \<comment> \<open>the command line that \<open>__update_repodata\<close> runs for a repository\<close>
  "repodata_cmd ext repo =
     create_repo_cmd (path repo) (get_repomd_record_xml_path ext (path repo) ''group'')"

fun update_repodata_loop :: "externals \<Rightarrow> cleaner \<Rightarrow> nat list \<Rightarrow> result" where
  "update_repodata_loop ext self [] = Inr self"
| "update_repodata_loop ext self (rid # rest) =
     (case repos self rid of
        None \<Rightarrow> Inl (KeyError rid, self)
      | Some repo \<Rightarrow>
          and_then
            (create_repo ext self (path repo)
               (get_repomd_record_xml_path ext (path repo) ''group''))
            (\<lambda>s. update_repodata_loop ext s rest))"

definition update_repodata :: "externals \<Rightarrow> cleaner \<Rightarrow> result" where
  "update_repodata ext self = update_repodata_loop ext self (iterkeys ext (stats self))"


section \<open>Example inputs\<close>

text \<open>
  A distribution with a stable and a beta repository for one architecture, packages built
  from the source packages \<open>foo\<close> and \<open>zlib\<close>, and an environment in which dictionaries
  are visited in insertion order. \<open>ex_splitFilename\<close> lists what \<open>splitFilename\<close> returns
  for the source package names that occur.
\<close>

definition ex_repo :: "nat \<Rightarrow> string \<Rightarrow> channel \<Rightarrow> bool \<Rightarrow> repository" where
  "ex_repo i n ch ro =
     \<lparr>repo_id = i, repo_name = n, repo_arch = ''x86_64'', path = ''/srv/'' @ n @ ''/x86_64'',
      channel = ch, readonly = ro\<rparr>"

definition ex_sub_package :: "nat \<Rightarrow> string \<Rightarrow> string \<Rightarrow> string \<Rightarrow> nat \<Rightarrow> package" where
  \<comment> \<open>the package \<open>n\<close> built from the source package \<open>src\<close> at version \<open>v\<close>, release 1\<close>
  "ex_sub_package i src n v rid =
     \<lparr>package_id = i, pkg_name = n, epoch = 0, version = v, rel = ''1'',
      pkg_arch = ''x86_64'', sourcerpm = Some (src @ ''-'' @ v @ ''-1.src.rpm''),
      location = n @ ''-'' @ v @ ''-1.x86_64.rpm'', pkg_repo_id = rid\<rparr>"

definition ex_package :: "nat \<Rightarrow> string \<Rightarrow> string \<Rightarrow> nat \<Rightarrow> package" where
  "ex_package i n v rid = ex_sub_package i n n v rid"

definition ex_splitFilename ::
  "string option \<Rightarrow> (string \<times> string \<times> string \<times> string \<times> string) option" where
  "ex_splitFilename f =
     (case f of
        None \<Rightarrow> None
      | Some s \<Rightarrow> map_of
         [(''foo-10-1.src.rpm'', (''foo'', ''10'', ''1'', [], ''src'')),
          (''foo-9-1.src.rpm'', (''foo'', ''9'', ''1'', [], ''src'')),
          (''foo-8-1.src.rpm'', (''foo'', ''8'', ''1'', [], ''src'')),
          (''foo-4-1.src.rpm'', (''foo'', ''4'', ''1'', [], ''src'')),
          (''foo-3-1.src.rpm'', (''foo'', ''3'', ''1'', [], ''src'')),
          (''foo-2-1.src.rpm'', (''foo'', ''2'', ''1'', [], ''src'')),
          (''foo-1-1.src.rpm'', (''foo'', ''1'', ''1'', [], ''src'')),
          (''zlib-1-1.src.rpm'', (''zlib'', ''1'', ''1'', [], ''src'')),
          (''zlib-2-1.src.rpm'', (''zlib'', ''2'', ''1'', [], ''src''))] s)"

definition ex_externals :: externals where
  "ex_externals =
     \<lparr>splitFilename = ex_splitFilename, itervalues = map snd, iterkeys = map fst,
      repomd_records = (\<lambda>p. []), run_process = (\<lambda>cmd. (0, []))\<rparr>"

definition ex_cleaner :: "int \<Rightarrow> repository list \<Rightarrow> package list \<Rightarrow> cleaner" where
  \<comment> \<open>a cleaner that keeps \<open>kb\<close> beta versions and 3 stable versions\<close>
  "ex_cleaner kb rs db =
     \<lparr>config_name = ''distro'', config_version = ''7'', backup_dir = ''/backup/distro/7'',
      keep_beta = kb, keep_stable = 3, exclude_re = None, db_packages = db,
      repos = map_of (map (\<lambda>r. (repo_id r, r)) rs), stats = [], removed = [],
      createrepo_calls = []\<rparr>"

definition ex_repos :: "repository list" where
  "ex_repos = [ex_repo 1 ''stable'' STABLE False, ex_repo 2 ''beta'' BETA False]"







text \<open>
  A package built from the source package \<open>kernel\<close> and an exclusion pattern that matches
  it; an environment in which \<open>createrepo_c\<close> fails for the repository at path \<open>p\<close>; a
  third repository.
\<close>

definition ex_kernel :: cr_package where
  "ex_kernel = \<lparr>cr_name = ''kernel'', cr_epoch = 0, cr_version = ''3.10'', cr_release = ''1'',
     cr_arch = ''x86_64'', rpm_sourcerpm = Some ''kernel-3.10-1.src.rpm'',
     location_href = ''kernel-3.10-1.x86_64.rpm''\<rparr>"

definition ex_exclude_kernel :: "string \<Rightarrow> bool" where
  "ex_exclude_kernel s = (take 6 s = ''kernel'')"

definition ex_failing :: "string \<Rightarrow> externals" where
  "ex_failing p =
     ex_externals\<lparr>run_process := (\<lambda>cmd. if last cmd = p then (1, ''failed'') else (0, []))\<rparr>"

definition ex_three_repos :: "repository list" where
  "ex_three_repos = ex_repos @ [ex_repo 3 ''extras'' BETA False]"


section \<open>Notions used in the proofs\<close>


fun add_rows :: "externals \<Rightarrow> versions \<Rightarrow> package list \<Rightarrow> versions" where
  "add_rows ext vers [] = vers"
| "add_rows ext vers (pkg_row # rows) =
     (case version_key_of ext pkg_row of
        None \<Rightarrow> add_rows ext vers rows
      | Some k \<Rightarrow> add_rows ext (add_version k pkg_row vers) rows)"




text \<open>
  \<open>grouped ext vers rows\<close>: the dictionary \<open>vers\<close> holds, under every version key that
  occurs among \<open>rows\<close>, exactly the rows with that key, in their order.
\<close>

definition grouped :: "externals \<Rightarrow> versions \<Rightarrow> package list \<Rightarrow> bool" where
  "grouped ext vers rows =
     (distinct (map fst vers) \<and>
      (\<forall>(k, pkgs)\<in>set vers.
          pkgs \<noteq> [] \<and> pkgs = filter (\<lambda>r. version_key_of ext r = Some k) rows) \<and>
      (\<forall>r\<in>set rows. \<forall>k. version_key_of ext r = Some k \<longrightarrow> k \<in> fst ` set vers))"


section \<open>Properties of the comparator\<close>

lemma segments_cmp_antisym: "segments_cmp xs ys = - segments_cmp ys xs"
  by (induction xs ys rule: segments_cmp.induct) auto

lemma segments_cmp_trans_le:
  "segments_cmp xs ys \<le> 0 \<Longrightarrow> segments_cmp ys zs \<le> 0 \<Longrightarrow> segments_cmp xs zs \<le> 0"
proof (induction xs arbitrary: ys zs)
  case Nil
  then show ?case
    by (cases ys; cases zs; cases "hd ys"; cases "hd zs") (auto split: if_splits)
next
  case (Cons x xs)
  show ?case
  proof (cases ys)
    case Nil
    with Cons.prems show ?thesis
      by (cases x; cases zs; cases "hd zs") (auto split: if_splits)
  next
    case yc: (Cons y ys')
    show ?thesis
    proof (cases zs)
      case Nil
      with Cons.prems yc show ?thesis
        by (cases x; cases y) (auto split: if_splits)
    next
      case zc: (Cons z zs')
      with Cons.prems yc Cons.IH[of ys' zs'] show ?thesis
        by (cases x; cases y; cases z) (auto split: if_splits)
    qed
  qed
qed

lemma vercmp_antisym: "vercmp a b = - vercmp b a"
  unfolding vercmp_def by (rule segments_cmp_antisym)

lemma vercmp_trans_le: "vercmp a b \<le> 0 \<Longrightarrow> vercmp b c \<le> 0 \<Longrightarrow> vercmp a c \<le> 0"
  unfolding vercmp_def by (rule segments_cmp_trans_le)

lemma vercmp_trans_lt: "vercmp a b < 0 \<Longrightarrow> vercmp b c \<le> 0 \<Longrightarrow> vercmp a c < 0"
  using vercmp_trans_le[of a b c] vercmp_trans_le[of b c a]
    vercmp_antisym[of a b] vercmp_antisym[of a c]
  by linarith

lemma vercmp_trans_lt2: "vercmp a b \<le> 0 \<Longrightarrow> vercmp b c < 0 \<Longrightarrow> vercmp a c < 0"
  using vercmp_trans_le[of a b c] vercmp_trans_le[of c a b]
    vercmp_antisym[of b c] vercmp_antisym[of a c]
  by linarith

lemma vercmp_trans_eq: "vercmp a b = 0 \<Longrightarrow> vercmp b c = 0 \<Longrightarrow> vercmp a c = 0"
  using vercmp_trans_le[of a b c] vercmp_trans_le[of c b a]
    vercmp_antisym[of a b] vercmp_antisym[of b c] vercmp_antisym[of a c]
  by linarith

lemma labelCompare_antisym: "labelCompare a b = - labelCompare b a"
proof -
  obtain e1 v1 r1 where a: "a = (e1, v1, r1)" by (cases a)
  obtain e2 v2 r2 where b: "b = (e2, v2, r2)" by (cases b)
  show ?thesis
    using vercmp_antisym[of v1 v2] vercmp_antisym[of r1 r2] by (simp add: a b)
qed

lemma labelCompare_trans_lt:
  assumes "labelCompare a b < 0" and "labelCompare b c < 0"
  shows "labelCompare a c < 0"
proof -
  obtain e1 v1 r1 where a: "a = (e1, v1, r1)" by (cases a)
  obtain e2 v2 r2 where b: "b = (e2, v2, r2)" by (cases b)
  obtain e3 v3 r3 where c: "c = (e3, v3, r3)" by (cases c)
  show ?thesis
    using assms vercmp_trans_lt[of v1 v2 v3] vercmp_trans_lt2[of v1 v2 v3]
      vercmp_trans_eq[of v1 v2 v3] vercmp_trans_lt[of r1 r2 r3]
    by (auto simp: a b c split: if_splits)
qed

text \<open>
  C8. For all EVR triples \<open>a\<close>, \<open>b\<close>, \<open>c\<close>: \<open>compare(a, b) = - compare(b, a)\<close>, hence
  \<open>compare(a, a) = 0\<close>, and the comparator is transitive: if \<open>a\<close> is below \<open>b\<close> and \<open>b\<close>
  is below \<open>c\<close> then \<open>a\<close> is below \<open>c\<close> (and the same upwards). The triples need not be
  distinct.
\<close>

theorem labelCompare_antisymmetric_transitive:
  "labelCompare a b = - labelCompare b a \<and>
   labelCompare a a = 0 \<and>
   (labelCompare a b < 0 \<and> labelCompare b c < 0 \<longrightarrow> labelCompare a c < 0) \<and>
   (labelCompare a b > 0 \<and> labelCompare b c > 0 \<longrightarrow> labelCompare a c > 0)"
proof -
  have anti: "\<And>x y. labelCompare x y = - labelCompare y x"
    by (rule labelCompare_antisym)
  have refl: "labelCompare a a = 0"
    using anti[of a a] by simp
  have up: "labelCompare a b > 0 \<and> labelCompare b c > 0 \<longrightarrow> labelCompare a c > 0"
    using labelCompare_trans_lt[of c b a] anti[of a b] anti[of b c] anti[of a c] by auto
  show ?thesis
    using anti[of a b] refl up labelCompare_trans_lt[of a b c] by blast
qed

theorem labelCompare_antisymmetric_transitive_witness:
  "labelCompare (Some 0, ''1.0'', ''1~rc1'') (Some 0, ''1.0'', ''1'') < 0 \<and>
   labelCompare (Some 0, ''1.0'', ''1'') (Some 1, ''0.9'', ''1'') < 0 \<and>
   labelCompare (Some 0, ''1.0'', ''1~rc1'') (Some 1, ''0.9'', ''1'') < 0 \<and>
   labelCompare (Some 0, ''1.0'', ''1'') (Some 0, ''1.0'', ''1~rc1'') > 0 \<and>
   labelCompare (Some 1, ''0.9'', ''1'') (Some 0, ''1.0'', ''1'') > 0 \<and>
   labelCompare (Some 1, ''0.9'', ''1'') (Some 0, ''1.0'', ''1~rc1'') > 0"
proof -
  have ab: "labelCompare (Some 0, ''1.0'', ''1~rc1'') (Some 0, ''1.0'', ''1'') < 0"
    by (simp add: vercmp_def is_digit_def is_alpha_def digits_value_def epoch_value_def)
  have bc: "labelCompare (Some 0, ''1.0'', ''1'') (Some 1, ''0.9'', ''1'') < 0"
    by (simp add: epoch_value_def)
  have ba: "labelCompare (Some 0, ''1.0'', ''1'') (Some 0, ''1.0'', ''1~rc1'') > 0"
    by (simp add: vercmp_def is_digit_def is_alpha_def digits_value_def epoch_value_def)
  have cb: "labelCompare (Some 1, ''0.9'', ''1'') (Some 0, ''1.0'', ''1'') > 0"
    by (simp add: epoch_value_def)
  show ?thesis
    using ab bc ba cb
      labelCompare_antisymmetric_transitive
        [of "(Some 0, ''1.0'', ''1~rc1'')" "(Some 0, ''1.0'', ''1'')" "(Some 1, ''0.9'', ''1'')"]
      labelCompare_antisymmetric_transitive
        [of "(Some 1, ''0.9'', ''1'')" "(Some 0, ''1.0'', ''1'')" "(Some 0, ''1.0'', ''1~rc1'')"]
    by blast
qed


section \<open>What a cleanup pass can remove\<close>



















lemma loop_same_name:
  "\<forall>r\<in>set run. srpm_name_of ext r = Some n \<Longrightarrow>
   cleanup_arch_loop ext repos_arch (Some n) vers self run =
     Inr (Some n, add_rows ext vers run, self)"
proof (induction run arbitrary: vers)
  case Nil
  show ?case by simp
next
  case (Cons r run)
  from Cons.prems obtain v rl e a where sp: "splitFilename ext (sourcerpm r) = Some (n, v, rl, e, a)"
    by (auto simp: srpm_name_of_def split: option.splits)
  from Cons.prems have rest: "\<forall>r\<in>set run. srpm_name_of ext r = Some n" by simp
  show ?case
    using Cons.IH[OF rest] sp by (simp add: version_key_of_def)
qed









section \<open>Source groups without a stable version\<close>








section \<open>Version groups\<close>

lemma grouped_Nil: "grouped ext [] []"
  by (simp add: grouped_def)

lemma grouped_skip:
  assumes "grouped ext vers seen" and "version_key_of ext r = None"
  shows "grouped ext vers (seen @ [r])"
  using assms unfolding grouped_def by auto

lemma grouped_add_version:
  assumes g: "grouped ext vers seen" and k: "version_key_of ext r = Some k"
  shows "grouped ext (add_version k r vers) (seen @ [r])"
proof (cases "k \<in> fst ` set vers")
  case False
  have "version_key_of ext x \<noteq> Some k" if "x \<in> set seen" for x
  proof
    assume "version_key_of ext x = Some k"
    with g that have "k \<in> fst ` set vers" unfolding grouped_def by blast
    with False show False by contradiction
  qed
  then have none: "filter (\<lambda>r. version_key_of ext r = Some k) seen = []"
    by (simp add: filter_empty_conv)
  have av: "add_version k r vers = vers @ [(k, [r])]"
    using False by (simp add: add_version_def)
  have others: "\<forall>(k', pkgs)\<in>set vers. k' \<noteq> k"
    using False by force
  show ?thesis
    unfolding av grouped_def
    using g k none others False unfolding grouped_def by (auto simp: image_iff)
next
  case True
  let ?f = "\<lambda>(k', pkgs). if k' = k then (k', pkgs @ [r]) else (k', pkgs)"
  have av: "add_version k r vers = map ?f vers"
    using True by (simp add: add_version_def)
  have keys: "map fst (map ?f vers) = map fst vers"
    by (induction vers) (auto split: prod.splits)
  have keys_set: "fst ` set (map ?f vers) = fst ` set vers"
    using keys by (metis set_map)
  have c1: "distinct (map fst (map ?f vers))"
    using g unfolding keys grouped_def by simp
  have c2: "\<forall>(k', pkgs)\<in>set (map ?f vers).
          pkgs \<noteq> [] \<and> pkgs = filter (\<lambda>r. version_key_of ext r = Some k') (seen @ [r])"
    using g k unfolding grouped_def by (auto split: if_splits)
  have c3: "\<forall>x\<in>set (seen @ [r]). \<forall>k'. version_key_of ext x = Some k' \<longrightarrow> k' \<in> fst ` set (map ?f vers)"
    unfolding keys_set
  proof (intro ballI allI impI)
    fix x k'
    assume x: "x \<in> set (seen @ [r])" and k': "version_key_of ext x = Some k'"
    show "k' \<in> fst ` set vers"
    proof (cases "x = r")
      case True
      with k k' have "k' = k" by simp
      with \<open>k \<in> fst ` set vers\<close> show ?thesis by simp
    next
      case False
      with x have "x \<in> set seen" by simp
      with g k' show ?thesis unfolding grouped_def by blast
    qed
  qed
  show ?thesis
    unfolding av grouped_def using c1 c2 c3 by blast
qed

lemma grouped_add_rows:
  "grouped ext vers seen \<Longrightarrow> grouped ext (add_rows ext vers rows) (seen @ rows)"
proof (induction rows arbitrary: vers seen)
  case Nil
  then show ?case by simp
next
  case (Cons r rows)
  show ?case
  proof (cases "version_key_of ext r")
    case None
    from Cons.IH[OF grouped_skip[OF Cons.prems None]] None show ?thesis by simp
  next
    case (Some k)
    from Cons.IH[OF grouped_add_version[OF Cons.prems Some]] Some show ?thesis by simp
  qed
qed

lemma loop_from_start:
  assumes same: "\<forall>r\<in>set rows. srpm_name_of ext r = Some n"
  shows "cleanup_arch_loop ext repos_arch None [] self rows =
           Inr (if rows = [] then None else Some n, add_rows ext [] rows, self)"
proof (cases rows)
  case Nil
  then show ?thesis by simp
next
  case (Cons r rs)
  from same Cons obtain v rl e a where sp: "splitFilename ext (sourcerpm r) = Some (n, v, rl, e, a)"
    by (auto simp: srpm_name_of_def split: option.splits)
  from same Cons have rest: "\<forall>r\<in>set rs. srpm_name_of ext r = Some n" by simp
  show ?thesis
    using Cons sp loop_same_name[OF rest, of repos_arch "add_version (v, rl) r []" self]
    by (simp add: and_then_def version_key_of_def)
qed

text \<open>
  C6, as amended. Within a source group, two packages are in the same version group if
  and only if their \<open>sourcerpm\<close> file names split to the same (version, release) pair. The
  epoch, version and release of the packages themselves play no part.
\<close>

theorem version_groups_by_source_version_and_release:
  assumes same: "\<forall>r\<in>set rows. srpm_name_of ext r = Some n"
  shows "\<exists>last_srpm_name vers.
           cleanup_arch_loop ext repos_arch None [] self rows = Inr (last_srpm_name, vers, self) \<and>
           (\<forall>r1\<in>set rows. \<forall>r2\<in>set rows.
              (\<exists>g\<in>snd ` set vers. r1 \<in> set g \<and> r2 \<in> set g) \<longleftrightarrow>
              version_key_of ext r1 = version_key_of ext r2)"
proof -
  let ?vers = "add_rows ext [] rows"
  have g: "grouped ext ?vers rows"
    using grouped_add_rows[OF grouped_Nil, of ext rows] by simp
  have key: "\<exists>k. version_key_of ext r = Some k" if "r \<in> set rows" for r
    using same that by (auto simp: srpm_name_of_def version_key_of_def split: option.splits)
  have "(\<exists>g\<in>snd ` set ?vers. r1 \<in> set g \<and> r2 \<in> set g) \<longleftrightarrow>
              version_key_of ext r1 = version_key_of ext r2"
    if r1: "r1 \<in> set rows" and r2: "r2 \<in> set rows" for r1 r2
  proof
    assume "\<exists>g\<in>snd ` set ?vers. r1 \<in> set g \<and> r2 \<in> set g"
    then obtain k pkgs where "(k, pkgs) \<in> set ?vers" "r1 \<in> set pkgs" "r2 \<in> set pkgs" by auto
    with g show "version_key_of ext r1 = version_key_of ext r2"
      unfolding grouped_def by fastforce
  next
    assume eq: "version_key_of ext r1 = version_key_of ext r2"
    from key[OF r1] obtain k where k: "version_key_of ext r1 = Some k" by blast
    with g r1 have "k \<in> fst ` set ?vers" unfolding grouped_def by blast
    then obtain pkgs where in_vers: "(k, pkgs) \<in> set ?vers" by auto
    with g have "pkgs = filter (\<lambda>r. version_key_of ext r = Some k) rows"
      unfolding grouped_def by blast
    with r1 r2 k eq have "r1 \<in> set pkgs \<and> r2 \<in> set pkgs" by simp
    with in_vers show "\<exists>g\<in>snd ` set ?vers. r1 \<in> set g \<and> r2 \<in> set g" by force
  qed
  then show ?thesis
    using loop_from_start[OF same, of repos_arch self] by blast
qed

theorem version_groups_by_source_version_and_release_witness:
  "list_all (\<lambda>r. srpm_name_of ex_externals r = Some ''foo'')
     [ex_package 1 ''foo'' ''10'' 2, (ex_package 2 ''foo'' ''10'' 2)\<lparr>epoch := 1\<rparr>,
      ex_package 3 ''foo'' ''9'' 2] \<and>
   (\<exists>last_srpm_name vers.
      cleanup_arch_loop ex_externals ex_repos None [] (ex_cleaner 3 ex_repos [])
        [ex_package 1 ''foo'' ''10'' 2, (ex_package 2 ''foo'' ''10'' 2)\<lparr>epoch := 1\<rparr>,
         ex_package 3 ''foo'' ''9'' 2] = Inr (last_srpm_name, vers, ex_cleaner 3 ex_repos []) \<and>
      (\<exists>g\<in>snd ` set vers. ex_package 1 ''foo'' ''10'' 2 \<in> set g \<and>
           (ex_package 2 ''foo'' ''10'' 2)\<lparr>epoch := 1\<rparr> \<in> set g) \<and>
      \<not> (\<exists>g\<in>snd ` set vers. ex_package 1 ''foo'' ''10'' 2 \<in> set g \<and>
           ex_package 3 ''foo'' ''9'' 2 \<in> set g))"
proof -
  let ?rows = "[ex_package 1 ''foo'' ''10'' 2, (ex_package 2 ''foo'' ''10'' 2)\<lparr>epoch := 1\<rparr>,
      ex_package 3 ''foo'' ''9'' 2]"
  have same: "\<forall>r\<in>set ?rows. srpm_name_of ex_externals r = Some ''foo''"
    by (simp add: srpm_name_of_def ex_externals_def ex_splitFilename_def ex_package_def
        ex_sub_package_def)
  have k12: "version_key_of ex_externals (ex_package 1 ''foo'' ''10'' 2) =
      version_key_of ex_externals ((ex_package 2 ''foo'' ''10'' 2)\<lparr>epoch := 1\<rparr>)"
    by (simp add: version_key_of_def ex_externals_def ex_splitFilename_def ex_package_def
        ex_sub_package_def)
  have k13: "version_key_of ex_externals (ex_package 1 ''foo'' ''10'' 2) \<noteq>
      version_key_of ex_externals (ex_package 3 ''foo'' ''9'' 2)"
    by (simp add: version_key_of_def ex_externals_def ex_splitFilename_def ex_package_def
        ex_sub_package_def)
  from version_groups_by_source_version_and_release[OF same, of ex_repos "ex_cleaner 3 ex_repos []"]
  obtain l vers where
    loop: "cleanup_arch_loop ex_externals ex_repos None [] (ex_cleaner 3 ex_repos []) ?rows =
      Inr (l, vers, ex_cleaner 3 ex_repos [])" and
    iff: "\<forall>r1\<in>set ?rows. \<forall>r2\<in>set ?rows.
              (\<exists>g\<in>snd ` set vers. r1 \<in> set g \<and> r2 \<in> set g) \<longleftrightarrow>
              version_key_of ex_externals r1 = version_key_of ex_externals r2"
    by blast
  have a: "\<exists>g\<in>snd ` set vers. ex_package 1 ''foo'' ''10'' 2 \<in> set g \<and>
           (ex_package 2 ''foo'' ''10'' 2)\<lparr>epoch := 1\<rparr> \<in> set g"
    using iff k12 by simp
  have b: "\<not> (\<exists>g\<in>snd ` set vers. ex_package 1 ''foo'' ''10'' 2 \<in> set g \<and>
           ex_package 3 ''foo'' ''9'' 2 \<in> set g)"
    using iff k13 by simp
  have hyp: "list_all (\<lambda>r. srpm_name_of ex_externals r = Some ''foo'') ?rows"
    using same by (simp only: list_all_iff)
  have concl: "\<exists>last_srpm_name vers.
      cleanup_arch_loop ex_externals ex_repos None [] (ex_cleaner 3 ex_repos []) ?rows =
        Inr (last_srpm_name, vers, ex_cleaner 3 ex_repos []) \<and>
      (\<exists>g\<in>snd ` set vers. ex_package 1 ''foo'' ''10'' 2 \<in> set g \<and>
           (ex_package 2 ''foo'' ''10'' 2)\<lparr>epoch := 1\<rparr> \<in> set g) \<and>
      \<not> (\<exists>g\<in>snd ` set vers. ex_package 1 ''foo'' ''10'' 2 \<in> set g \<and>
           ex_package 3 ''foo'' ''9'' 2 \<in> set g)"
    using loop a b by blast
  from hyp concl show ?thesis by (rule conjI)
qed

text \<open>
  Two packages built from \<open>foo-10-1.src.rpm\<close> that differ in epoch are in one version group.
\<close>

theorem version_groups_ignore_epoch_counterexample: "cleanup_arch_loop ex_externals ex_repos None [] (ex_cleaner 3 ex_repos [])
     [ex_package 1 ''foo'' ''10'' 2, (ex_package 2 ''foo'' ''10'' 2)\<lparr>epoch := 1\<rparr>] =
   Inr (Some ''foo'',
        [((''10'', ''1''), [ex_package 1 ''foo'' ''10'' 2, (ex_package 2 ''foo'' ''10'' 2)\<lparr>epoch := 1\<rparr>])],
        ex_cleaner 3 ex_repos []) \<and>
   evr_of (ex_package 1 ''foo'' ''10'' 2) \<noteq> evr_of ((ex_package 2 ''foo'' ''10'' 2)\<lparr>epoch := 1\<rparr>)"
  by (simp add: ex_externals_def ex_splitFilename_def ex_package_def ex_sub_package_def
      add_version_def and_then_def evr_of_def)


section \<open>The end-to-end example\<close>











section \<open>The latest stable version\<close>

text \<open>
  C2. The stable repository holds \<open>foo-1\<close>, the beta repository \<open>foo-9\<close> and \<open>foo-8\<close>,
  and the dictionary is visited from the newest version to the oldest. The first loop of
  \<open>__cleanup_previous_versions\<close> takes the EVR of the first group it visits, the beta
  version 9, as \<open>latest_stable_evr\<close>, and keeps it: the only stable version is 1. With
  that value \<open>foo-8\<close> is removed as obsoleted by stable.
\<close>

theorem latest_stable_evr_seeded_by_beta:
  "latest_stable_loop [1] None
     [[ex_package 2 ''foo'' ''9'' 2], [ex_package 3 ''foo'' ''8'' 2], [ex_package 1 ''foo'' ''1'' 1]]
     = Some (Some 0, ''9'', ''1'') \<and>
   map (\<lambda>d. (rm_package d, rm_reason d))
     (decisions
        (ex_cleaner 3 ex_repos
           [ex_package 1 ''foo'' ''1'' 1, ex_package 2 ''foo'' ''9'' 2,
            ex_package 3 ''foo'' ''8'' 2, ex_package 4 ''zlib'' ''1'' 1])
        (cleanup_arch (ex_externals\<lparr>itervalues := rev \<circ> map snd\<rparr>)
           (ex_cleaner 3 ex_repos
              [ex_package 1 ''foo'' ''1'' 1, ex_package 2 ''foo'' ''9'' 2,
               ex_package 3 ''foo'' ''8'' 2, ex_package 4 ''zlib'' ''1'' 1])
           ex_repos)) = [(ex_package 3 ''foo'' ''8'' 2, EXPIRED_BY_STABLE)]"
  by code_simp


section \<open>Readonly repositories\<close>

text \<open>
  C4. The stable repository is readonly and holds \<open>foo-3\<close> and the sub-package
  \<open>foo-libs-2\<close>; the beta repository holds \<open>foo-2\<close>. The version group of
  \<open>foo-2-1.src.rpm\<close> has the beta package as its first package, so the readonly test
  passes, and the group is removed as a whole: a removal is made for \<open>foo-libs-2\<close>, whose
  repository (1) is readonly, in either order of visiting the dictionary.
\<close>

theorem readonly_package_removed_with_its_group:
  "map (\<lambda>d. (pkg_name (rm_package d), pkg_repo_id (rm_package d), rm_repo_id d, rm_source d))
     (decisions
        (ex_cleaner 3 [ex_repo 1 ''stable'' STABLE True, ex_repo 2 ''beta'' BETA False]
           [ex_package 1 ''foo'' ''3'' 1, ex_package 2 ''foo'' ''2'' 2,
            ex_sub_package 3 ''foo'' ''foo-libs'' ''2'' 1, ex_package 4 ''zlib'' ''1'' 1])
        (cleanup_arch ex_externals
           (ex_cleaner 3 [ex_repo 1 ''stable'' STABLE True, ex_repo 2 ''beta'' BETA False]
              [ex_package 1 ''foo'' ''3'' 1, ex_package 2 ''foo'' ''2'' 2,
               ex_sub_package 3 ''foo'' ''foo-libs'' ''2'' 1, ex_package 4 ''zlib'' ''1'' 1])
           [ex_repo 1 ''stable'' STABLE True, ex_repo 2 ''beta'' BETA False])) =
     [(''foo'', 2, 2, ''/srv/beta/x86_64/foo-2-1.x86_64.rpm''),
      (''foo-libs'', 1, 2, ''/srv/beta/x86_64/foo-libs-2-1.x86_64.rpm'')] \<and>
   map (\<lambda>d. (pkg_name (rm_package d), pkg_repo_id (rm_package d), rm_repo_id d, rm_source d))
     (decisions
        (ex_cleaner 3 [ex_repo 1 ''stable'' STABLE True, ex_repo 2 ''beta'' BETA False]
           [ex_package 1 ''foo'' ''3'' 1, ex_package 2 ''foo'' ''2'' 2,
            ex_sub_package 3 ''foo'' ''foo-libs'' ''2'' 1, ex_package 4 ''zlib'' ''1'' 1])
        (cleanup_arch (ex_externals\<lparr>itervalues := rev \<circ> map snd\<rparr>)
           (ex_cleaner 3 [ex_repo 1 ''stable'' STABLE True, ex_repo 2 ''beta'' BETA False]
              [ex_package 1 ''foo'' ''3'' 1, ex_package 2 ''foo'' ''2'' 2,
               ex_sub_package 3 ''foo'' ''foo-libs'' ''2'' 1, ex_package 4 ''zlib'' ''1'' 1])
           [ex_repo 1 ''stable'' STABLE True, ex_repo 2 ''beta'' BETA False])) =
     [(''foo'', 2, 2, ''/srv/beta/x86_64/foo-2-1.x86_64.rpm''),
      (''foo-libs'', 1, 2, ''/srv/beta/x86_64/foo-libs-2-1.x86_64.rpm'')]"
  by code_simp


section \<open>Excluded source packages\<close>

text \<open>
  C5, as amended. A package whose (non-empty) source package name matches the exclusion
  pattern is not inserted into the package index: \<open>__save_repo_package\<close> returns before
  the INSERT and leaves the index as it was. The package is dropped, not recorded.
\<close>

theorem excluded_package_is_not_indexed:
  assumes "rpm_sourcerpm package = Some s" and "s \<noteq> []" and "is_srpm_excluded self s"
  shows "save_repo_package self rid package = self"
  using assms by (simp add: save_repo_package_def)

theorem excluded_package_is_not_indexed_witness:
  "rpm_sourcerpm ex_kernel = Some ''kernel-3.10-1.src.rpm'' \<and>
   is_srpm_excluded ((ex_cleaner 3 ex_repos [])\<lparr>exclude_re := Some ex_exclude_kernel\<rparr>)
     ''kernel-3.10-1.src.rpm'' \<and>
   save_repo_package ((ex_cleaner 3 ex_repos [])\<lparr>exclude_re := Some ex_exclude_kernel\<rparr>) 1 ex_kernel
     = (ex_cleaner 3 ex_repos [])\<lparr>exclude_re := Some ex_exclude_kernel\<rparr>"
proof -
  have a: "rpm_sourcerpm ex_kernel = Some ''kernel-3.10-1.src.rpm''"
    by (simp add: ex_kernel_def)
  have b: "''kernel-3.10-1.src.rpm'' \<noteq> []" by simp
  have c: "is_srpm_excluded ((ex_cleaner 3 ex_repos [])\<lparr>exclude_re := Some ex_exclude_kernel\<rparr>)
     ''kernel-3.10-1.src.rpm''"
    by (simp add: is_srpm_excluded_def ex_exclude_kernel_def)
  show ?thesis
    using excluded_package_is_not_indexed[OF a b c, of 1] a c by simp
qed

text \<open>
  With the pattern the index stays empty; without it the same package is inserted.
\<close>

theorem excluded_package_counterexample:
  "db_packages (save_repo_package
      ((ex_cleaner 3 ex_repos [])\<lparr>exclude_re := Some ex_exclude_kernel\<rparr>) 1 ex_kernel) = [] \<and>
   map pkg_name (db_packages (save_repo_package (ex_cleaner 3 ex_repos []) 1 ex_kernel)) = [''kernel'']"
  by (simp add: save_repo_package_def is_srpm_excluded_def ex_exclude_kernel_def ex_kernel_def
      ex_cleaner_def)


section \<open>Removing a version group\<close>








section \<open>Metadata regeneration stops at the first failure\<close>

lemma create_repo_ok:
  "fst (run_process ext (create_repo_cmd p g)) = 0 \<Longrightarrow>
   create_repo ext self p g =
     Inr (self\<lparr>createrepo_calls := createrepo_calls self @ [create_repo_cmd p g]\<rparr>)"
  by (cases "run_process ext (create_repo_cmd p g)") (simp add: create_repo_def Let_def)

lemma create_repo_failed:
  "run_process ext (create_repo_cmd p g) = (returncode, out) \<Longrightarrow> returncode \<noteq> 0 \<Longrightarrow>
   create_repo ext self p g =
     Inl (CreaterepoError p out returncode,
          self\<lparr>createrepo_calls := createrepo_calls self @ [create_repo_cmd p g]\<rparr>)"
  by (simp add: create_repo_def Let_def)

lemma update_repodata_loop_stops:
  assumes known: "map (repos self) before = map Some before_repos"
      and ok: "\<forall>r\<in>set before_repos. fst (run_process ext (repodata_cmd ext r)) = 0"
      and failing: "repos self rid = Some repo"
      and rc: "run_process ext (repodata_cmd ext repo) = (returncode, out)"
      and nz: "returncode \<noteq> 0"
  shows "\<exists>s. update_repodata_loop ext self (before @ rid # after) =
               Inl (CreaterepoError (path repo) out returncode, s) \<and>
             createrepo_calls s =
               createrepo_calls self @ map (repodata_cmd ext) (before_repos @ [repo])"
  using known ok failing
proof (induction before arbitrary: self before_repos)
  case Nil
  then have "before_repos = []" by simp
  with Nil.prems(3) rc nz show ?case
    by (simp add: and_then_def create_repo_failed[unfolded repodata_cmd_def[symmetric]]
        repodata_cmd_def[symmetric])
next
  case (Cons k before)
  from Cons.prems(1) obtain r rs where br: "before_repos = r # rs"
    and k: "repos self k = Some r" and rest: "map (repos self) before = map Some rs"
    by (cases before_repos) auto
  let ?s1 = "self\<lparr>createrepo_calls := createrepo_calls self @ [repodata_cmd ext r]\<rparr>"
  from Cons.prems(2) br have okr: "fst (run_process ext (repodata_cmd ext r)) = 0"
    and okrs: "\<forall>r\<in>set rs. fst (run_process ext (repodata_cmd ext r)) = 0"
    by simp_all
  have step: "update_repodata_loop ext self ((k # before) @ rid # after) =
      update_repodata_loop ext ?s1 (before @ rid # after)"
    using k create_repo_ok[of ext "path r" "get_repomd_record_xml_path ext (path r) ''group''" self]
      okr
    by (simp add: and_then_def repodata_cmd_def)
  have "map (repos ?s1) before = map Some rs" using rest by simp
  moreover have "repos ?s1 rid = Some repo" using Cons.prems(3) by simp
  ultimately obtain s where
    "update_repodata_loop ext ?s1 (before @ rid # after) =
       Inl (CreaterepoError (path repo) out returncode, s)"
    "createrepo_calls s = createrepo_calls ?s1 @ map (repodata_cmd ext) (rs @ [repo])"
    using Cons.IH[of ?s1 rs] okrs by blast
  then show ?case
    unfolding step br by auto
qed

text \<open>
  C7, as amended. When \<open>createrepo_c\<close> fails for a repository with a removed-count, the
  exception leaves the loop of \<open>__update_repodata\<close>: the run ends with that error, the
  repositories visited before it have been regenerated, and no regeneration is attempted
  for the repositories that come after it.
\<close>

theorem update_repodata_stops_at_first_failure:
  assumes keys: "iterkeys ext (stats self) = before @ rid # after"
      and known: "map (repos self) before = map Some before_repos"
      and ok: "\<forall>r\<in>set before_repos. fst (run_process ext (repodata_cmd ext r)) = 0"
      and failing: "repos self rid = Some repo"
      and rc: "run_process ext (repodata_cmd ext repo) = (returncode, out)"
      and nz: "returncode \<noteq> 0"
  shows "\<exists>s. update_repodata ext self = Inl (CreaterepoError (path repo) out returncode, s) \<and>
             createrepo_calls s =
               createrepo_calls self @ map (repodata_cmd ext) (before_repos @ [repo])"
  unfolding update_repodata_def keys
  by (rule update_repodata_loop_stops[OF known ok failing rc nz])

theorem update_repodata_stops_at_first_failure_witness:
  "iterkeys (ex_failing ''/srv/beta/x86_64'')
     (stats ((ex_cleaner 3 ex_three_repos [])\<lparr>stats := [(1, 1), (2, 2), (3, 1)]\<rparr>)) = [1] @ 2 # [3] \<and>
   (\<exists>s. update_repodata (ex_failing ''/srv/beta/x86_64'')
          ((ex_cleaner 3 ex_three_repos [])\<lparr>stats := [(1, 1), (2, 2), (3, 1)]\<rparr>) =
          Inl (CreaterepoError ''/srv/beta/x86_64'' ''failed'' 1, s) \<and>
        map last (createrepo_calls s) = [''/srv/stable/x86_64'', ''/srv/beta/x86_64''])"
proof -
  let ?ext = "ex_failing ''/srv/beta/x86_64''"
  let ?c = "(ex_cleaner 3 ex_three_repos [])\<lparr>stats := [(1, 1), (2, 2), (3, 1)]\<rparr>"
  have keys: "iterkeys ?ext (stats ?c) = [1] @ 2 # [3]"
    by (simp add: ex_failing_def ex_externals_def)
  have known: "map (repos ?c) [1] = map Some [ex_repo 1 ''stable'' STABLE False]"
    by (simp add: ex_cleaner_def ex_three_repos_def ex_repos_def ex_repo_def)
  have ok: "\<forall>r\<in>set [ex_repo 1 ''stable'' STABLE False]. fst (run_process ?ext (repodata_cmd ?ext r)) = 0"
    by (simp add: ex_failing_def ex_externals_def repodata_cmd_def create_repo_cmd_def
        get_repomd_record_xml_path_def ex_repo_def)
  have failing: "repos ?c 2 = Some (ex_repo 2 ''beta'' BETA False)"
    by (simp add: ex_cleaner_def ex_three_repos_def ex_repos_def ex_repo_def)
  have rc: "run_process ?ext (repodata_cmd ?ext (ex_repo 2 ''beta'' BETA False)) = (1, ''failed'')"
    by (simp add: ex_failing_def ex_externals_def repodata_cmd_def create_repo_cmd_def
        get_repomd_record_xml_path_def ex_repo_def)
  have nz: "(1::int) \<noteq> 0" by simp
  from update_repodata_stops_at_first_failure[OF keys known ok failing rc nz]
  obtain s where
    res: "update_repodata ?ext ?c =
      Inl (CreaterepoError (path (ex_repo 2 ''beta'' BETA False)) ''failed'' 1, s)" and
    calls: "createrepo_calls s = createrepo_calls ?c @
      map (repodata_cmd ?ext) ([ex_repo 1 ''stable'' STABLE False] @ [ex_repo 2 ''beta'' BETA False])"
    by blast
  have res': "update_repodata ?ext ?c = Inl (CreaterepoError ''/srv/beta/x86_64'' ''failed'' 1, s)"
    using res by (simp add: ex_repo_def)
  have calls': "map last (createrepo_calls s) = [''/srv/stable/x86_64'', ''/srv/beta/x86_64'']"
    unfolding calls
    by (simp add: ex_cleaner_def repodata_cmd_def create_repo_cmd_def ex_repo_def)
  show ?thesis
    by (intro conjI exI[of _ s] keys res' calls')
qed

text \<open>
  Two repositories have removed packages and \<open>createrepo_c\<close> fails for the first: it is
  the only one for which a process is started.
\<close>

theorem update_repodata_counterexample:
  "isl (update_repodata (ex_failing ''/srv/stable/x86_64'')
          ((ex_cleaner 3 ex_repos [])\<lparr>stats := [(1, 1), (2, 2)]\<rparr>)) \<and>
   createrepo_calls (final_state (update_repodata (ex_failing ''/srv/stable/x86_64'')
          ((ex_cleaner 3 ex_repos [])\<lparr>stats := [(1, 1), (2, 2)]\<rparr>))) =
     [[''createrepo_c'', ''--keep-all-metadata'', ''--compatibility'', ''--simple-md-filenames'',
       ''/srv/stable/x86_64'']]"
  by code_simp

end
